theory Spec2Isabelle
  imports Main "HOL-Library.Word"
begin

unbundle bit_operations_syntax

section \<open>Data model of \<open>src/server/project.ts\<close>\<close>

text \<open>
  Paths are strings. A \<open>NormalizedPath\<close> is the name a file is known under, a \<open>Path\<close>
  is the key the registries and the program index it by.
\<close>

type_synonym NormalizedPath = string
type_synonym Path = string

datatype ProjectKind = Inferred | Configured | External

text \<open>
  \<open>ScriptInfo\<close> objects are owned by the script-info registry and shared between
  projects. \<open>objectId\<close> is the identity of the object: two objects are different
  objects, also when their fields are equal, exactly when their \<open>objectId\<close> differs.
  \<open>fileName\<close> and \<open>path\<close> are the two read-only fields the project reads. As these
  never change, a comparison of references (\<open>e !== item\<close>) is the comparison of the
  records. The mutable flag \<open>isOpen\<close> is read through the registry, see
  \<open>ScriptInfoRegistry\<close>.
\<close>

record ScriptInfo =
  objectId :: nat
  fileName :: NormalizedPath
  path :: Path

record ScriptInfoRegistry =
  getScriptInfoForNormalizedPath :: "NormalizedPath \<Rightarrow> ScriptInfo option"
  getOrCreateScriptInfoForNormalizedPath :: "NormalizedPath \<Rightarrow> bool \<Rightarrow> ScriptInfo option"
  isOpen :: "ScriptInfo \<Rightarrow> bool"

text \<open>
  A source file of a program: its name, the path it is indexed by, and its text. The
  text is what an edit changes.
\<close>

record SourceFile =
  sourceFileName :: string
  sourcePath :: Path
  sourceText :: string

text \<open>
  A program handle of the analysis engine. \<open>programId\<close> is the identity of the object
  (\<open>this.program !== oldProgram\<close> compares references); \<open>structureIsReused\<close> is the flag
  the engine sets on an old program when a newer program reused its structure.
\<close>

record Program =
  programId :: nat
  sourceFiles :: "SourceFile list"
  structureIsReused :: bool

text \<open>
  Compiler options are an object whose properties are all optional: the two properties
  the project writes, and the remaining ones as an opaque list. A variable of this type
  may also be \<open>undefined\<close>, which is \<open>None\<close> of \<open>CompilerOptions option\<close>; an object
  without any property is \<open>emptyOptions\<close>, and like every object it is truthy.
\<close>

record CompilerOptions =
  allowNonTsExtensions :: "bool option"
  allowJs :: "bool option"
  otherOptions :: "(string \<times> string) list"

definition emptyOptions :: CompilerOptions where
  "emptyOptions = \<lparr>allowNonTsExtensions = None, allowJs = None, otherOptions = []\<rparr>"

text \<open>
  Modelled from the spec: the analysis-engine binding (\<open>LSHost\<close> in \<open>lshost.ts\<close>, and
  \<open>nullLanguageServiceHost\<close> in \<open>utilities.ts\<close>) is not part of the source at hand. The
  live binding keeps the compilation settings pushed into it and the files it was asked
  to drop; on the null binding every request is a no-op.
\<close>

datatype ServerLanguageServiceHost =
    LSHost (compilationSettings: "CompilerOptions option")
           (droppedRoots: "ScriptInfo list")
           (droppedReferencedFiles: "ScriptInfo list")
  | nullLanguageServiceHost

fun setCompilationSettings :: "CompilerOptions option \<Rightarrow> ServerLanguageServiceHost \<Rightarrow> ServerLanguageServiceHost" where
  "setCompilationSettings opt (LSHost s rs fs) = LSHost opt rs fs"
| "setCompilationSettings opt nullLanguageServiceHost = nullLanguageServiceHost"

fun hostRemoveRoot :: "ScriptInfo \<Rightarrow> ServerLanguageServiceHost \<Rightarrow> ServerLanguageServiceHost" where
  "hostRemoveRoot info (LSHost s rs fs) = LSHost s (rs @ [info]) fs"
| "hostRemoveRoot info nullLanguageServiceHost = nullLanguageServiceHost"

fun hostRemoveReferencedFile :: "ScriptInfo \<Rightarrow> ServerLanguageServiceHost \<Rightarrow> ServerLanguageServiceHost" where
  "hostRemoveReferencedFile info (LSHost s rs fs) = LSHost s rs (fs @ [info])"
| "hostRemoveReferencedFile info nullLanguageServiceHost = nullLanguageServiceHost"

datatype LanguageService = LiveLanguageService | nullLanguageService

text \<open>
  Modelled from the spec: \<open>Map<T>\<close>, \<open>FileMap<T>\<close> and their helpers (\<open>arrayToMap\<close>,
  \<open>hasProperty\<close>, \<open>createFileMap\<close> in \<open>core.ts\<close>) are not part of the source at hand. A
  map is an object used as a dictionary from strings: a list of key-value pairs with
  distinct keys, in the order in which the keys were first assigned, which is the order
  a \<open>for ... in\<close> loop visits them.
\<close>

type_synonym 'a Map = "(string \<times> 'a) list"

definition hasProperty :: "'a Map \<Rightarrow> string \<Rightarrow> bool" where
  "hasProperty m key = (key \<in> set (map fst m))"

primrec setProperty :: "string \<Rightarrow> 'a \<Rightarrow> 'a Map \<Rightarrow> 'a Map" where
  "setProperty key v [] = [(key, v)]"
| "setProperty key v (e # m) = (if fst e = key then (key, v) # m else e # setProperty key v m)"

definition deleteProperty :: "string \<Rightarrow> 'a Map \<Rightarrow> 'a Map" where
  "deleteProperty key m = filter (\<lambda>e. fst e \<noteq> key) m"

definition propertyNames :: "'a Map \<Rightarrow> string list" where
  "propertyNames m = map fst m"

definition arrayToMap :: "'a list \<Rightarrow> ('a \<Rightarrow> string) \<Rightarrow> 'a Map" where
  "arrayToMap array makeKey = foldl (\<lambda>result v. setProperty (makeKey v) v result) [] array"

text \<open>
  The project. \<open>projectName\<close> is what the variant's \<open>getProjectName()\<close> returns.
  \<open>attachedInfos\<close> is the project's side of the attach relation that
  \<open>ScriptInfo.attachToProject\<close> and \<open>detachFromProject\<close> maintain.
\<close>

record Project =
  projectKind :: ProjectKind
  projectName :: string
  rootFiles :: "ScriptInfo list"
  rootFilesMap :: "ScriptInfo Map"
  lsHost :: ServerLanguageServiceHost
  program :: "Program option"
  languageService :: LanguageService
  lastReportedFileNames :: "string Map option"
  lastReportedVersion :: int
  projectStructureVersion :: int
  projectStateVersion :: int
  languageServiceEnabled :: bool
  compilerOptions :: "CompilerOptions option"
  attachedInfos :: "ScriptInfo list"

text \<open>The response of \<open>getChangesSinceVersion\<close> (\<open>protocol.ProjectFiles\<close>).\<close>

record ProjectInfo =
  infoProjectName :: string
  version :: int
  isInferred :: bool

record ProjectChanges =
  added :: "string list"
  removed :: "string list"

record ProjectFiles =
  responseInfo :: ProjectInfo
  files :: "string list option"
  changes :: "ProjectChanges option"

section \<open>Operations of \<open>Project\<close>\<close>

definition getProjectName :: "'a Project_scheme \<Rightarrow> string" where
  "getProjectName p = projectName p"

definition getRootFiles :: "'a Project_scheme \<Rightarrow> NormalizedPath list" where
  "getRootFiles p = map fileName (rootFiles p)"

text \<open>
  \<open>getDefaultLibFilePath\<close> belongs to the engine and is a parameter; it yields a string,
  or nothing. An absent and an empty string are both falsy.
\<close>

definition getFileNames :: "(CompilerOptions \<Rightarrow> string option) \<Rightarrow> 'a Project_scheme \<Rightarrow> NormalizedPath list" where
  "getFileNames getDefaultLibFilePath p =
     (case program p of
        None \<Rightarrow> []
      | Some prog \<Rightarrow>
          if \<not> languageServiceEnabled p then
            (let roots = getRootFiles p in
             case compilerOptions p of
               None \<Rightarrow> roots
             | Some options \<Rightarrow>
                 (case getDefaultLibFilePath options of
                    None \<Rightarrow> roots
                  | Some defaultLibrary \<Rightarrow>
                      if defaultLibrary \<noteq> [] then roots @ [defaultLibrary] else roots))
          else map sourceFileName (sourceFiles prog))"

definition getSourceFileByPath :: "Program \<Rightarrow> Path \<Rightarrow> SourceFile option" where
  "getSourceFileByPath prog p = find (\<lambda>f. sourcePath f = p) (sourceFiles prog)"

text \<open>
  \<open>this.program && this.program.getSourceFileByPath(info.path) !== undefined\<close>: without a
  program the conjunction yields the undefined program itself, which is \<open>None\<close>.
\<close>

definition containsScriptInfo :: "'a Project_scheme \<Rightarrow> ScriptInfo \<Rightarrow> bool option" where
  "containsScriptInfo p info =
     (case program p of
        None \<Rightarrow> None
      | Some prog \<Rightarrow> Some (getSourceFileByPath prog (path info) \<noteq> None))"

text \<open>
  The result is a boolean or \<open>undefined\<close> (\<open>None\<close>); \<open>requireOpen\<close> is an optional
  argument, and an absent one is falsy.
\<close>

definition containsFile :: "ScriptInfoRegistry \<Rightarrow> 'a Project_scheme \<Rightarrow> NormalizedPath \<Rightarrow> bool option \<Rightarrow> bool option" where
  "containsFile projectService p filename requireOpen =
     (case getScriptInfoForNormalizedPath projectService filename of
        None \<Rightarrow> None
      | Some info \<Rightarrow>
          if requireOpen \<noteq> Some True \<or> isOpen projectService info
          then containsScriptInfo p info
          else None)"

definition isRoot :: "'a Project_scheme \<Rightarrow> ScriptInfo \<Rightarrow> bool" where
  "isRoot p info = hasProperty (rootFilesMap p) (path info)"

definition markAsDirty :: "'a Project_scheme \<Rightarrow> 'a Project_scheme" where
  "markAsDirty p = p\<lparr>projectStateVersion := projectStateVersion p + 1\<rparr>"

text \<open>
  Modelled from the spec: \<open>ScriptInfo.attachToProject\<close> and \<open>detachFromProject\<close>
  (\<open>scriptInfo.ts\<close>) are not part of the source at hand. Attaching links the file to the
  project unless it is linked already, and tells whether it was newly attached;
  detaching removes the link.
\<close>

definition attachToProject :: "ScriptInfo \<Rightarrow> 'a Project_scheme \<Rightarrow> bool \<times> 'a Project_scheme" where
  "attachToProject info p =
     (if info \<in> set (attachedInfos p) then (False, p)
      else (True, p\<lparr>attachedInfos := attachedInfos p @ [info]\<rparr>))"

definition detachFromProject :: "ScriptInfo \<Rightarrow> 'a Project_scheme \<Rightarrow> 'a Project_scheme" where
  "detachFromProject info p = p\<lparr>attachedInfos := filter (\<lambda>e. e \<noteq> info) (attachedInfos p)\<rparr>"

definition addRoot :: "ScriptInfo \<Rightarrow> 'a Project_scheme \<Rightarrow> 'a Project_scheme" where
  "addRoot info p =
     (if \<not> isRoot p info then
        markAsDirty (snd (attachToProject info
          (p\<lparr>rootFiles := rootFiles p @ [info],
             rootFilesMap := setProperty (path info) info (rootFilesMap p)\<rparr>)))
      else p)"

text \<open>
  Modelled from the spec: \<open>copyListRemovingItem\<close> (\<open>utilities.ts\<close>) is not part of the
  source at hand. It copies the list without the elements that are the given object
  (\<open>e !== item\<close>, a comparison of references); an object with the same path that is
  another object stays in the list.
\<close>

definition copyListRemovingItem :: "'a \<Rightarrow> 'a list \<Rightarrow> 'a list" where
  "copyListRemovingItem item list = filter (\<lambda>e. e \<noteq> item) list"

definition removeRoot :: "ScriptInfo \<Rightarrow> 'a Project_scheme \<Rightarrow> bool \<times> 'a Project_scheme" where
  "removeRoot info p =
     (if isRoot p info then
        (True, p\<lparr>rootFiles := copyListRemovingItem info (rootFiles p),
                 rootFilesMap := deleteProperty (path info) (rootFilesMap p),
                 lsHost := hostRemoveRoot info (lsHost p)\<rparr>)
      else (False, p))"

definition removeReferencedFile :: "ScriptInfo \<Rightarrow> 'a Project_scheme \<Rightarrow> 'a Project_scheme" where
  "removeReferencedFile info p = p\<lparr>lsHost := hostRemoveReferencedFile info (lsHost p)\<rparr>"

definition removeFile :: "ScriptInfo \<Rightarrow> bool \<Rightarrow> 'a Project_scheme \<Rightarrow> 'a Project_scheme" where
  "removeFile info detach p =
     (let (wasRoot, p1) = removeRoot info p;
          p2 = (if \<not> wasRoot then removeReferencedFile info p1 else p1);
          p3 = (if detach then detachFromProject info p2 else p2)
      in markAsDirty p3)"


definition enableLanguageService :: "'a Project_scheme \<Rightarrow> 'a Project_scheme" where
  "enableLanguageService p =
     p\<lparr>languageService := LiveLanguageService,
       lsHost := setCompilationSettings (compilerOptions p) (LSHost None [] []),
       languageServiceEnabled := True\<rparr>"

definition disableLanguageService :: "'a Project_scheme \<Rightarrow> 'a Project_scheme" where
  "disableLanguageService p =
     p\<lparr>languageService := nullLanguageService,
       lsHost := nullLanguageServiceHost,
       languageServiceEnabled := False\<rparr>"

text \<open>
  The constructor. \<open>ts.getDefaultCompilerOptions()\<close> belongs to the engine and is a
  parameter. The fields start as their initialisers say: no roots, no program, no
  reported file names, all versions \<open>0\<close>; the constructor ends with \<open>markAsDirty()\<close>.
\<close>

definition newProject ::
  "CompilerOptions \<Rightarrow> ProjectKind \<Rightarrow> string \<Rightarrow> bool \<Rightarrow> bool \<Rightarrow> CompilerOptions option \<Rightarrow> Project" where
  "newProject getDefaultCompilerOptions kind name hasExplicitListOfFiles enabled options =
     (let options1 =
            (case options of
               None \<Rightarrow> getDefaultCompilerOptions\<lparr>allowNonTsExtensions := Some True, allowJs := Some True\<rparr>
             | Some o1 \<Rightarrow> if hasExplicitListOfFiles then o1\<lparr>allowNonTsExtensions := Some True\<rparr> else o1);
          p0 = \<lparr>projectKind = kind, projectName = name, rootFiles = [], rootFilesMap = [],
                lsHost = nullLanguageServiceHost, program = None,
                languageService = nullLanguageService,
                lastReportedFileNames = None, lastReportedVersion = 0,
                projectStructureVersion = 0, projectStateVersion = 0,
                languageServiceEnabled = enabled, compilerOptions = Some options1,
                attachedInfos = []\<rparr>
      in markAsDirty (if enabled then enableLanguageService p0 else disableLanguageService p0))"

text \<open>
  \<open>updateGraph\<close> asks the engine for its program. What the engine answers is an input:
  the program handle it returns, and the value of \<open>structureIsReused\<close> that the previous
  program object holds once the call is over (the engine sets it while it builds the
  new program).
\<close>

record EngineReply =
  replyProgram :: Program
  oldProgramStructureIsReused :: bool

definition updateGraph :: "EngineReply \<Rightarrow> 'a Project_scheme \<Rightarrow> 'a Project_scheme" where
  "updateGraph reply p =
     (if \<not> languageServiceEnabled p then p
      else
        (let oldProgram = program p;
             p1 = p\<lparr>program := Some (replyProgram reply)\<rparr>
         in case oldProgram of
              None \<Rightarrow> p1\<lparr>projectStructureVersion := projectStructureVersion p1 + 1\<rparr>
            | Some old \<Rightarrow>
                if programId (replyProgram reply) \<noteq> programId old \<and> \<not> oldProgramStructureIsReused reply
                then p1\<lparr>projectStructureVersion := projectStructureVersion p1 + 1\<rparr>
                else p1))"

text \<open>
  \<open>Project.getScriptInfoForNormalizedPath\<close>; \<open>getScriptInfo\<close>, \<open>saveTo\<close> and
  \<open>reloadScript\<close> change the project through it only.
\<close>

definition projectGetScriptInfoForNormalizedPath ::
  "ScriptInfoRegistry \<Rightarrow> NormalizedPath \<Rightarrow> 'a Project_scheme \<Rightarrow> ScriptInfo option \<times> 'a Project_scheme" where
  "projectGetScriptInfoForNormalizedPath projectService name p =
     (case getOrCreateScriptInfoForNormalizedPath projectService name False of
        None \<Rightarrow> (None, p)
      | Some scriptInfo \<Rightarrow>
          (let (isNew, p1) = attachToProject scriptInfo p
           in (Some scriptInfo, if isNew then markAsDirty p1 else p1)))"

text \<open>
  \<open>if (compilerOptions)\<close> tests that the argument is there: \<open>undefined\<close> is falsy, every
  object is truthy. The assignment to \<open>allowNonTsExtensions\<close> is made on the caller's
  object, which is the one stored.
\<close>

definition setCompilerOptions :: "CompilerOptions option \<Rightarrow> 'a Project_scheme \<Rightarrow> 'a Project_scheme" where
  "setCompilerOptions options p =
     (case options of
        None \<Rightarrow> p
      | Some o1 \<Rightarrow>
          (let o2 = o1\<lparr>allowNonTsExtensions := Some True\<rparr>
           in markAsDirty
                (p\<lparr>compilerOptions := Some o2,
                   lsHost := setCompilationSettings (Some o2) (lsHost p)\<rparr>)))"

text \<open>
  \<open>getChangesSinceVersion\<close>. \<open>lastKnownVersion\<close> is an optional number; the versions are
  integer counters. The two \<open>for ... in\<close> loops visit the keys of a map in order and push
  the ones that pass the test.
\<close>

definition getChangesSinceVersion ::
  "(CompilerOptions \<Rightarrow> string option) \<Rightarrow> int option \<Rightarrow> 'a Project_scheme \<Rightarrow> ProjectFiles \<times> 'a Project_scheme" where
  "getChangesSinceVersion getDefaultLibFilePath lastKnownVersion p =
     (let summary = \<lparr>infoProjectName = getProjectName p,
                     version = projectStructureVersion p,
                     isInferred = (projectKind p = Inferred)\<rparr>;
          everything =
            (let projectFileNames = getFileNames getDefaultLibFilePath p
             in (\<lparr>responseInfo = summary, files = Some projectFileNames, changes = None\<rparr>,
                 p\<lparr>lastReportedFileNames := Some (arrayToMap projectFileNames (\<lambda>x. x)),
                   lastReportedVersion := projectStructureVersion p\<rparr>))
      in case lastReportedFileNames p of
           None \<Rightarrow> everything
         | Some lastReported \<Rightarrow>
             if lastKnownVersion = Some (lastReportedVersion p) then
               (if projectStructureVersion p = lastReportedVersion p then
                  (\<lparr>responseInfo = summary, files = None, changes = None\<rparr>, p)
                else
                  (let currentFiles = arrayToMap (getFileNames getDefaultLibFilePath p) (\<lambda>x. x);
                       added1 = filter (\<lambda>k. hasProperty currentFiles k \<and> \<not> hasProperty lastReported k)
                                  (propertyNames currentFiles);
                       removed1 = filter (\<lambda>k. hasProperty lastReported k \<and> \<not> hasProperty currentFiles k)
                                    (propertyNames lastReported)
                   in (\<lparr>responseInfo = summary, files = None,
                         changes = Some \<lparr>added = added1, removed = removed1\<rparr>\<rparr>,
                       p\<lparr>lastReportedFileNames := Some currentFiles,
                         lastReportedVersion := projectStructureVersion p\<rparr>)))
             else everything)"

section \<open>Sequences of operations\<close>

text \<open>
  The operations that change a live project, with their arguments and with what the
  collaborators answer.
\<close>

datatype Operation =
    AddRoot ScriptInfo
  | RemoveFile ScriptInfo bool
  | MarkAsDirty
  | UpdateGraph EngineReply
  | SetCompilerOptions "CompilerOptions option"
  | GetChangesSinceVersion "int option"
  | EnableLanguageService
  | DisableLanguageService
  | GetScriptInfoForNormalizedPath NormalizedPath

fun step ::
  "(CompilerOptions \<Rightarrow> string option) \<Rightarrow> ScriptInfoRegistry \<Rightarrow> Operation \<Rightarrow> 'a Project_scheme \<Rightarrow> 'a Project_scheme" where
  "step lib reg (AddRoot scriptInfo) p = addRoot scriptInfo p"
| "step lib reg (RemoveFile scriptInfo detach) p = removeFile scriptInfo detach p"
| "step lib reg MarkAsDirty p = markAsDirty p"
| "step lib reg (UpdateGraph reply) p = updateGraph reply p"
| "step lib reg (SetCompilerOptions options) p = setCompilerOptions options p"
| "step lib reg (GetChangesSinceVersion lastKnownVersion) p = snd (getChangesSinceVersion lib lastKnownVersion p)"
| "step lib reg EnableLanguageService p = enableLanguageService p"
| "step lib reg DisableLanguageService p = disableLanguageService p"
| "step lib reg (GetScriptInfoForNormalizedPath name) p = snd (projectGetScriptInfoForNormalizedPath reg name p)"

definition run ::
  "(CompilerOptions \<Rightarrow> string option) \<Rightarrow> ScriptInfoRegistry \<Rightarrow> Operation list \<Rightarrow> 'a Project_scheme \<Rightarrow> 'a Project_scheme" where
  "run lib reg ops p = foldl (\<lambda>q op. step lib reg op q) p ops"

section \<open>\<open>ConfiguredProject\<close> and its watches\<close>

text \<open>
  Modelled from the spec: the host (\<open>watchFile\<close>, \<open>watchDirectory\<close>, \<open>handle.close()\<close>)
  and the service's log are not part of the source at hand. The host keeps the watches
  registered with it, each with the handle it returned; a handle is a fresh number. A
  callback is named by a number: the closure the project registers calls it.
\<close>

type_synonym FileWatcher = nat
type_synonym Callback = nat

datatype Watch =
    FileWatch string Callback FileWatcher
  | DirectoryWatch string Callback bool FileWatcher

record ProjectService =
  hostWatches :: "Watch list"
  nextWatcher :: FileWatcher
  useCaseSensitiveFileNames :: bool
  logMessages :: "string list"

definition watchFile :: "string \<Rightarrow> Callback \<Rightarrow> ProjectService \<Rightarrow> FileWatcher \<times> ProjectService" where
  "watchFile name callback svc =
     (nextWatcher svc,
      svc\<lparr>hostWatches := hostWatches svc @ [FileWatch name callback (nextWatcher svc)],
          nextWatcher := Suc (nextWatcher svc)\<rparr>)"

definition watchDirectory :: "string \<Rightarrow> Callback \<Rightarrow> bool \<Rightarrow> ProjectService \<Rightarrow> FileWatcher \<times> ProjectService" where
  "watchDirectory name callback recursive svc =
     (nextWatcher svc,
      svc\<lparr>hostWatches := hostWatches svc @ [DirectoryWatch name callback recursive (nextWatcher svc)],
          nextWatcher := Suc (nextWatcher svc)\<rparr>)"

fun watcherOf :: "Watch \<Rightarrow> FileWatcher" where
  "watcherOf (FileWatch name callback w) = w"
| "watcherOf (DirectoryWatch name callback recursive w) = w"

definition closeWatcher :: "FileWatcher \<Rightarrow> ProjectService \<Rightarrow> ProjectService" where
  "closeWatcher w svc = svc\<lparr>hostWatches := filter (\<lambda>e. watcherOf e \<noteq> w) (hostWatches svc)\<rparr>"

definition log :: "string \<Rightarrow> ProjectService \<Rightarrow> ProjectService" where
  "log msg svc = svc\<lparr>logMessages := logMessages svc @ [msg]\<rparr>"

text \<open>
  The path helpers of the compiler (\<open>getDirectoryPath\<close>, \<open>comparePaths\<close>) are parameters.
  \<open>WatchDirectoryFlags.Recursive\<close> is the lowest bit of a directory's flags.
\<close>

datatype Comparison = LessThan | EqualTo | GreaterThan

record PathHelpers =
  getDirectoryPath :: "string \<Rightarrow> string"
  comparePaths :: "string \<Rightarrow> string \<Rightarrow> string \<Rightarrow> bool \<Rightarrow> Comparison"

definition Recursive :: "32 word" where
  "Recursive = push_bit 0 1"

record ConfiguredProject = Project +
  configFileName :: NormalizedPath
  wildcardDirectories :: "32 word Map option"
  projectFileWatcher :: "FileWatcher option"
  directoryWatcher :: "FileWatcher option"
  directoriesWatchedForWildcards :: "FileWatcher Map option"
  openRefCount :: int

text \<open>
  The constructor of \<open>ConfiguredProject\<close>: the base constructor with the kind
  \<open>Configured\<close>; the project's name is the name of its configuration file; no watcher is
  set and \<open>openRefCount\<close> is \<open>0\<close>.
\<close>

definition newConfiguredProject ::
  "CompilerOptions \<Rightarrow> NormalizedPath \<Rightarrow> bool \<Rightarrow> CompilerOptions option \<Rightarrow> 32 word Map option \<Rightarrow> bool \<Rightarrow> ConfiguredProject" where
  "newConfiguredProject getDefaultCompilerOptions name hasExplicitListOfFiles options wildcards enabled =
     Project.extend
       (newProject getDefaultCompilerOptions Configured name hasExplicitListOfFiles enabled options)
       (ConfiguredProject.fields name wildcards None None None 0)"

definition watchConfigFile ::
  "Callback \<Rightarrow> ConfiguredProject \<times> ProjectService \<Rightarrow> ConfiguredProject \<times> ProjectService" where
  "watchConfigFile callback = (\<lambda>(p, svc).
     (let (w, svc1) = watchFile (configFileName p) callback svc
      in (p\<lparr>projectFileWatcher := Some w\<rparr>, svc1)))"

definition watchConfigDirectory ::
  "PathHelpers \<Rightarrow> Callback \<Rightarrow> ConfiguredProject \<times> ProjectService \<Rightarrow> ConfiguredProject \<times> ProjectService" where
  "watchConfigDirectory h callback = (\<lambda>(p, svc).
     (case directoryWatcher p of
        Some w \<Rightarrow> (p, svc)
      | None \<Rightarrow>
          (let directoryToWatch = getDirectoryPath h (configFileName p);
               svc1 = log (''Add recursive watcher for: '' @ directoryToWatch) svc;
               (w, svc2) = watchDirectory directoryToWatch callback True svc1
           in (p\<lparr>directoryWatcher := Some w\<rparr>, svc2))))"

text \<open>
  \<open>reduceProperties\<close> folds over the properties of the map in order; the callback of
  \<open>watchWildcards\<close> is \<open>watchWildcard\<close>, which also logs and registers with the host.
\<close>

definition watchWildcard ::
  "PathHelpers \<Rightarrow> Callback \<Rightarrow> string \<Rightarrow> FileWatcher Map \<times> ProjectService \<Rightarrow> string \<times> 32 word \<Rightarrow> FileWatcher Map \<times> ProjectService" where
  "watchWildcard h callback configDirectoryPath = (\<lambda>(watchers, svc) (directory, flag).
     (if comparePaths h configDirectoryPath directory ''.'' (\<not> useCaseSensitiveFileNames svc) \<noteq> EqualTo then
        (let recursive = (flag AND Recursive \<noteq> 0);
             svc1 = log (''Add '' @ (if recursive then ''recursive '' else []) @ ''watcher for: '' @ directory) svc;
             (w, svc2) = watchDirectory directory callback recursive svc1
         in (setProperty directory w watchers, svc2))
      else (watchers, svc)))"

definition watchWildcards ::
  "PathHelpers \<Rightarrow> Callback \<Rightarrow> ConfiguredProject \<times> ProjectService \<Rightarrow> ConfiguredProject \<times> ProjectService" where
  "watchWildcards h callback = (\<lambda>(p, svc).
     (case wildcardDirectories p of
        None \<Rightarrow> (p, svc)
      | Some dirs \<Rightarrow>
          (let configDirectoryPath = getDirectoryPath h (configFileName p);
               (watchers, svc1) = foldl (watchWildcard h callback configDirectoryPath) ([], svc) dirs
           in (p\<lparr>directoriesWatchedForWildcards := Some watchers\<rparr>, svc1))))"

definition stopWatchingDirectory ::
  "ConfiguredProject \<times> ProjectService \<Rightarrow> ConfiguredProject \<times> ProjectService" where
  "stopWatchingDirectory = (\<lambda>(p, svc).
     (case directoryWatcher p of
        Some w \<Rightarrow> (p\<lparr>directoryWatcher := None\<rparr>, closeWatcher w svc)
      | None \<Rightarrow> (p, svc)))"

section \<open>Properties to be stated, and example projects\<close>



text \<open>
  The scenario of the specification: a project with the roots \<open>a.ts\<close> and \<open>b.ts\<close>, whose
  first program holds both and the default library; then \<open>b.ts\<close> is removed and the next
  program holds \<open>a.ts\<close> and the library.
\<close>

definition noDefaultLib :: "CompilerOptions \<Rightarrow> string option" where
  "noDefaultLib options = None"

definition noRegistry :: ScriptInfoRegistry where
  "noRegistry = \<lparr>getScriptInfoForNormalizedPath = (\<lambda>name. None),
                 getOrCreateScriptInfoForNormalizedPath = (\<lambda>name openedByClient. None),
                 isOpen = (\<lambda>scriptInfo. False)\<rparr>"

definition fileA :: ScriptInfo where
  "fileA = \<lparr>objectId = 1, fileName = ''/a.ts'', path = ''/a.ts''\<rparr>"

definition fileB :: ScriptInfo where
  "fileB = \<lparr>objectId = 2, fileName = ''/b.ts'', path = ''/b.ts''\<rparr>"


definition sourceOf :: "string \<Rightarrow> string \<Rightarrow> SourceFile" where
  "sourceOf name content = \<lparr>sourceFileName = name, sourcePath = name, sourceText = content\<rparr>"

definition firstProgram :: EngineReply where
  "firstProgram =
     \<lparr>replyProgram = \<lparr>programId = 1,
                       sourceFiles = [sourceOf ''/a.ts'' ''let a'', sourceOf ''/b.ts'' ''let b'',
                                      sourceOf ''/lib.d.ts'' ''''],
                       structureIsReused = False\<rparr>,
      oldProgramStructureIsReused = False\<rparr>"

definition secondProgram :: EngineReply where
  "secondProgram =
     \<lparr>replyProgram = \<lparr>programId = 2,
                       sourceFiles = [sourceOf ''/a.ts'' ''let a'', sourceOf ''/lib.d.ts'' ''''],
                       structureIsReused = False\<rparr>,
      oldProgramStructureIsReused = False\<rparr>"

definition freshProject :: Project where
  "freshProject = newProject emptyOptions Configured ''/tsconfig.json'' False True (Some emptyOptions)"

definition analysedProject :: Project where
  "analysedProject = updateGraph firstProgram (addRoot fileB (addRoot fileA freshProject))"

definition reportedProject :: Project where
  "reportedProject = snd (getChangesSinceVersion noDefaultLib None analysedProject)"

definition shrunkProject :: Project where
  "shrunkProject = updateGraph secondProgram (removeFile fileB True reportedProject)"

text \<open>
  A second program with the files of the first one: a new program object whose
  structure the engine did not reuse (an import was added to \<open>a.ts\<close>).
\<close>

definition sameFilesProgram :: EngineReply where
  "sameFilesProgram =
     \<lparr>replyProgram = \<lparr>programId = 3,
                       sourceFiles = [sourceOf ''/a.ts'' ''import b'', sourceOf ''/b.ts'' ''let b'',
                                      sourceOf ''/lib.d.ts'' ''''],
                       structureIsReused = False\<rparr>,
      oldProgramStructureIsReused = False\<rparr>"

text \<open>A registry that knows \<open>a.ts\<close>, which is open, and \<open>b.ts\<close>, which is not.\<close>

definition knownRegistry :: ScriptInfoRegistry where
  "knownRegistry =
     \<lparr>getScriptInfoForNormalizedPath =
        (\<lambda>name. if name = ''/a.ts'' then Some fileA else if name = ''/b.ts'' then Some fileB else None),
      getOrCreateScriptInfoForNormalizedPath =
        (\<lambda>name openedByClient.
           if name = ''/a.ts'' then Some fileA else if name = ''/b.ts'' then Some fileB else None),
      isOpen = (\<lambda>scriptInfo. scriptInfo = fileA)\<rparr>"

text \<open>
  A configured project in \<open>/proj\<close> with three wildcard directories, one of them its own
  directory, and a host that watches nothing yet.
\<close>

definition idleService :: ProjectService where
  "idleService =
     \<lparr>hostWatches = [], nextWatcher = 0, useCaseSensitiveFileNames = True, logMessages = []\<rparr>"

definition simplePaths :: PathHelpers where
  "simplePaths =
     \<lparr>getDirectoryPath = (\<lambda>name. ''/proj''),
      comparePaths = (\<lambda>a b currentDirectory ignoreCase. if a = b then EqualTo else LessThan)\<rparr>"

definition configuredExample :: ConfiguredProject where
  "configuredExample =
     newConfiguredProject emptyOptions ''/proj/tsconfig.json'' False (Some emptyOptions)
       (Some [(''/proj'', 1), (''/proj/src'', 1), (''/lib'', 0)]) True"

section \<open>Maps built from arrays\<close>

lemma propertyNames_setProperty:
  "propertyNames (setProperty k v m) =
     (if k \<in> set (propertyNames m) then propertyNames m else propertyNames m @ [k])"
  by (induction m) (auto simp: propertyNames_def)

lemma hasProperty_propertyNames: "hasProperty m k = (k \<in> set (propertyNames m))"
  by (simp add: hasProperty_def propertyNames_def)

lemma hasProperty_setProperty: "hasProperty (setProperty k v m) k' = (k' = k \<or> hasProperty m k')"
  by (auto simp: hasProperty_propertyNames propertyNames_setProperty)

lemma propertyNames_fold_set:
  "set (propertyNames (foldl (\<lambda>result v. setProperty (f v) v result) m xs)) =
     set (propertyNames m) \<union> f ` set xs"
  by (induction xs arbitrary: m) (auto simp: propertyNames_setProperty)

lemma set_propertyNames_arrayToMap: "set (propertyNames (arrayToMap xs f)) = f ` set xs"
  using propertyNames_fold_set [of f "[]" xs] by (simp add: arrayToMap_def propertyNames_def)

section \<open>The example projects, evaluated\<close>

lemmas project_defs =
  newProject_def emptyOptions_def addRoot_def removeFile_def removeRoot_def removeReferencedFile_def
  isRoot_def hasProperty_def markAsDirty_def attachToProject_def detachFromProject_def
  enableLanguageService_def disableLanguageService_def updateGraph_def setCompilerOptions_def
  getChangesSinceVersion_def getFileNames_def getRootFiles_def getProjectName_def
  arrayToMap_def propertyNames_def deleteProperty_def copyListRemovingItem_def Let_def

lemmas example_defs =
  freshProject_def analysedProject_def reportedProject_def shrunkProject_def
  fileA_def fileB_def firstProgram_def secondProgram_def sourceOf_def noDefaultLib_def

lemma analysedProject_files:
  "getFileNames noDefaultLib analysedProject = [''/a.ts'', ''/b.ts'', ''/lib.d.ts'']"
  "lastReportedFileNames analysedProject = None"
  "projectStructureVersion analysedProject = 1"
  "getProjectName analysedProject = ''/tsconfig.json''"
  "projectKind analysedProject = Configured"
  by (simp_all add: example_defs project_defs)

lemma shrunkProject_files:
  "getFileNames noDefaultLib shrunkProject = [''/a.ts'', ''/lib.d.ts'']"
  "lastReportedFileNames shrunkProject =
     Some [(''/a.ts'', ''/a.ts''), (''/b.ts'', ''/b.ts''), (''/lib.d.ts'', ''/lib.d.ts'')]"
  "lastReportedVersion shrunkProject = 1"
  "projectStructureVersion shrunkProject = 2"
  by (simp_all add: example_defs project_defs)

section \<open>The diff protocol\<close>

text \<open>
  Claim C1. When the project has no reported baseline, or the caller's
  \<open>lastKnownVersion\<close> is not the last reported version (an absent \<open>lastKnownVersion\<close>
  included), \<open>getChangesSinceVersion\<close> answers with the full current file list and no
  changes, and the project afterwards differs only in its baseline: the map built from
  that list, whose keys are exactly the listed names, and the current structure version.
\<close>

theorem getChangesSinceVersion_unknown_version:
  assumes "lastReportedFileNames p = None \<or> lastKnownVersion \<noteq> Some (lastReportedVersion p)"
  shows "files (fst (getChangesSinceVersion lib lastKnownVersion p)) = Some (getFileNames lib p)
       \<and> changes (fst (getChangesSinceVersion lib lastKnownVersion p)) = None
       \<and> snd (getChangesSinceVersion lib lastKnownVersion p) =
           p\<lparr>lastReportedFileNames := Some (arrayToMap (getFileNames lib p) (\<lambda>x. x)),
             lastReportedVersion := projectStructureVersion p\<rparr>
       \<and> set (propertyNames (arrayToMap (getFileNames lib p) (\<lambda>x. x))) = set (getFileNames lib p)"
  using assms
  by (auto simp: getChangesSinceVersion_def Let_def set_propertyNames_arrayToMap split: option.splits)

theorem getChangesSinceVersion_unknown_version_witness:
  "(lastReportedFileNames analysedProject = None
      \<or> Some 999 \<noteq> Some (lastReportedVersion analysedProject))
   \<and> files (fst (getChangesSinceVersion noDefaultLib (Some 999) analysedProject)) =
       Some [''/a.ts'', ''/b.ts'', ''/lib.d.ts'']
   \<and> changes (fst (getChangesSinceVersion noDefaultLib (Some 999) analysedProject)) = None
   \<and> lastReportedVersion (snd (getChangesSinceVersion noDefaultLib (Some 999) analysedProject)) = 1"
proof -
  have h: "lastReportedFileNames analysedProject = None
             \<or> Some 999 \<noteq> Some (lastReportedVersion analysedProject)"
    by (simp add: analysedProject_files)
  show ?thesis
    using h getChangesSinceVersion_unknown_version [OF h, of noDefaultLib]
    by (simp add: analysedProject_files)
qed

text \<open>
  Claim C2. When a baseline exists, the caller's \<open>lastKnownVersion\<close> is the last reported
  version and the structure version has moved on, the answer carries no file list and a
  pair of changes: \<open>added\<close> holds exactly the current file names that the baseline does
  not have, \<open>removed\<close> exactly the names of the baseline that are not current, so a name
  present in both is in neither list. The baseline becomes the current names and the
  current structure version. The answer does not depend on the text of the program's
  files: replacing every text changes nothing in it.
\<close>

theorem getChangesSinceVersion_diff:
  assumes "lastReportedFileNames p = Some lastReported"
    and "lastKnownVersion = Some (lastReportedVersion p)"
    and "projectStructureVersion p \<noteq> lastReportedVersion p"
  shows "files (fst (getChangesSinceVersion lib lastKnownVersion p)) = None
       \<and> (\<exists>a r. changes (fst (getChangesSinceVersion lib lastKnownVersion p)) = Some \<lparr>added = a, removed = r\<rparr>
            \<and> set a = set (getFileNames lib p) - set (propertyNames lastReported)
            \<and> set r = set (propertyNames lastReported) - set (getFileNames lib p)
            \<and> (\<forall>f. f \<in> set (getFileNames lib p) \<and> f \<in> set (propertyNames lastReported)
                   \<longrightarrow> f \<notin> set a \<and> f \<notin> set r))
       \<and> snd (getChangesSinceVersion lib lastKnownVersion p) =
           p\<lparr>lastReportedFileNames := Some (arrayToMap (getFileNames lib p) (\<lambda>x. x)),
             lastReportedVersion := projectStructureVersion p\<rparr>
       \<and> set (propertyNames (arrayToMap (getFileNames lib p) (\<lambda>x. x))) = set (getFileNames lib p)
       \<and> (\<forall>g t. program p = Some g \<longrightarrow>
             fst (getChangesSinceVersion lib lastKnownVersion
                    (p\<lparr>program := Some (g\<lparr>sourceFiles := map (\<lambda>f. f\<lparr>sourceText := t f\<rparr>) (sourceFiles g)\<rparr>)\<rparr>))
             = fst (getChangesSinceVersion lib lastKnownVersion p))"
proof -
  have names: "getFileNames lib (p\<lparr>program := Some (g\<lparr>sourceFiles := map (\<lambda>f. f\<lparr>sourceText := t f\<rparr>) (sourceFiles g)\<rparr>)\<rparr>)
        = getFileNames lib p" if "program p = Some g" for g t
    using that by (simp add: getFileNames_def getRootFiles_def comp_def)
  have edits: "fst (getChangesSinceVersion lib lastKnownVersion
                    (p\<lparr>program := Some (g\<lparr>sourceFiles := map (\<lambda>f. f\<lparr>sourceText := t f\<rparr>) (sourceFiles g)\<rparr>)\<rparr>))
             = fst (getChangesSinceVersion lib lastKnownVersion p)" if "program p = Some g" for g t
    using assms names [OF that, of t]
    by (simp add: getChangesSinceVersion_def Let_def getProjectName_def)
  have diff: "files (fst (getChangesSinceVersion lib lastKnownVersion p)) = None
       \<and> (\<exists>a r. changes (fst (getChangesSinceVersion lib lastKnownVersion p)) = Some \<lparr>added = a, removed = r\<rparr>
            \<and> set a = set (getFileNames lib p) - set (propertyNames lastReported)
            \<and> set r = set (propertyNames lastReported) - set (getFileNames lib p))
       \<and> snd (getChangesSinceVersion lib lastKnownVersion p) =
           p\<lparr>lastReportedFileNames := Some (arrayToMap (getFileNames lib p) (\<lambda>x. x)),
             lastReportedVersion := projectStructureVersion p\<rparr>"
    using assms
    by (auto simp: getChangesSinceVersion_def Let_def hasProperty_propertyNames set_propertyNames_arrayToMap)
  from diff edits show ?thesis
    by (auto simp: set_propertyNames_arrayToMap)
qed

theorem getChangesSinceVersion_diff_witness:
  "lastReportedFileNames shrunkProject =
     Some [(''/a.ts'', ''/a.ts''), (''/b.ts'', ''/b.ts''), (''/lib.d.ts'', ''/lib.d.ts'')]
   \<and> Some 1 = Some (lastReportedVersion shrunkProject)
   \<and> projectStructureVersion shrunkProject \<noteq> lastReportedVersion shrunkProject
   \<and> changes (fst (getChangesSinceVersion noDefaultLib (Some 1) shrunkProject)) =
       Some \<lparr>added = [], removed = [''/b.ts'']\<rparr>
   \<and> lastReportedVersion (snd (getChangesSinceVersion noDefaultLib (Some 1) shrunkProject)) = 2"
proof -
  have h1: "lastReportedFileNames shrunkProject =
              Some [(''/a.ts'', ''/a.ts''), (''/b.ts'', ''/b.ts''), (''/lib.d.ts'', ''/lib.d.ts'')]"
    by (simp add: shrunkProject_files)
  have h2: "Some 1 = Some (lastReportedVersion shrunkProject)"
    by (simp add: shrunkProject_files)
  have h3: "projectStructureVersion shrunkProject \<noteq> lastReportedVersion shrunkProject"
    by (simp add: shrunkProject_files)
  from getChangesSinceVersion_diff [OF h1 h2 h3, of noDefaultLib]
  have v: "snd (getChangesSinceVersion noDefaultLib (Some 1) shrunkProject) =
             shrunkProject\<lparr>lastReportedFileNames :=
                              Some (arrayToMap (getFileNames noDefaultLib shrunkProject) (\<lambda>x. x)),
                            lastReportedVersion := projectStructureVersion shrunkProject\<rparr>"
    by blast
  have c: "changes (fst (getChangesSinceVersion noDefaultLib (Some 1) shrunkProject)) =
             Some \<lparr>added = [], removed = [''/b.ts'']\<rparr>"
    by (simp add: getChangesSinceVersion_def Let_def shrunkProject_files arrayToMap_def
          hasProperty_def propertyNames_def)
  from h1 h2 h3 v c show ?thesis
    by (simp add: shrunkProject_files)
qed

text \<open>
  Claim C3. On a project without a baseline, a call of \<open>getChangesSinceVersion\<close> (with
  any argument) followed at once by a call with the version the first call returned
  answers with the project summary only: no file list and no changes; and this second
  call leaves the project as it was.
\<close>

theorem getChangesSinceVersion_round_trip:
  assumes "lastReportedFileNames p = None"
  shows "fst (getChangesSinceVersion lib
                (Some (version (responseInfo (fst (getChangesSinceVersion lib lastKnownVersion p)))))
                (snd (getChangesSinceVersion lib lastKnownVersion p)))
         = \<lparr>responseInfo = \<lparr>infoProjectName = getProjectName p,
                              version = projectStructureVersion p,
                              isInferred = (projectKind p = Inferred)\<rparr>,
            files = None, changes = None\<rparr>
       \<and> snd (getChangesSinceVersion lib
                (Some (version (responseInfo (fst (getChangesSinceVersion lib lastKnownVersion p)))))
                (snd (getChangesSinceVersion lib lastKnownVersion p)))
         = snd (getChangesSinceVersion lib lastKnownVersion p)"
  using assms
  by (simp add: getChangesSinceVersion_def Let_def getProjectName_def)

theorem getChangesSinceVersion_round_trip_witness:
  "lastReportedFileNames analysedProject = None
   \<and> fst (getChangesSinceVersion noDefaultLib
            (Some (version (responseInfo (fst (getChangesSinceVersion noDefaultLib None analysedProject)))))
            (snd (getChangesSinceVersion noDefaultLib None analysedProject)))
     = \<lparr>responseInfo = \<lparr>infoProjectName = ''/tsconfig.json'', version = 1, isInferred = False\<rparr>,
        files = None, changes = None\<rparr>"
proof -
  have h: "lastReportedFileNames analysedProject = None"
    by (simp add: analysedProject_files)
  from h getChangesSinceVersion_round_trip [OF h, of noDefaultLib None] show ?thesis
    by (simp add: analysedProject_files)
qed

section \<open>The two versions\<close>

lemma step_structure_version:
  "projectStructureVersion (step lib reg op p) = projectStructureVersion p
   \<or> (\<exists>reply. op = UpdateGraph reply \<and> languageServiceEnabled p
         \<and> (program p = None
              \<or> (\<exists>old. program p = Some old \<and> programId (replyProgram reply) \<noteq> programId old
                    \<and> \<not> oldProgramStructureIsReused reply))
         \<and> projectStructureVersion (step lib reg op p) = projectStructureVersion p + 1)"
proof (cases op)
  case (AddRoot i)
  then show ?thesis by (simp add: addRoot_def markAsDirty_def attachToProject_def)
next
  case (RemoveFile i d)
  then show ?thesis
    by (simp add: removeFile_def removeRoot_def removeReferencedFile_def detachFromProject_def
          markAsDirty_def Let_def)
next
  case MarkAsDirty
  then show ?thesis by (simp add: markAsDirty_def)
next
  case (UpdateGraph reply)
  then show ?thesis by (auto simp: updateGraph_def Let_def split: option.splits)
next
  case (SetCompilerOptions options)
  then show ?thesis by (simp add: setCompilerOptions_def markAsDirty_def Let_def split: option.splits)
next
  case (GetChangesSinceVersion v)
  then show ?thesis by (simp add: getChangesSinceVersion_def Let_def split: option.splits)
next
  case EnableLanguageService
  then show ?thesis by (simp add: enableLanguageService_def)
next
  case DisableLanguageService
  then show ?thesis by (simp add: disableLanguageService_def)
next
  case (GetScriptInfoForNormalizedPath name)
  then show ?thesis
    by (simp add: projectGetScriptInfoForNormalizedPath_def attachToProject_def markAsDirty_def
          split: option.splits)
qed

lemma step_structure_version_mono:
  "projectStructureVersion p \<le> projectStructureVersion (step lib reg op p)"
  using step_structure_version [of lib reg op p] by auto

lemma run_structure_version_mono:
  "projectStructureVersion p \<le> projectStructureVersion (run lib reg ops p)"
proof (induction ops arbitrary: p)
  case Nil
  then show ?case by (simp add: run_def)
next
  case (Cons op ops)
  have "projectStructureVersion p \<le> projectStructureVersion (step lib reg op p)"
    by (rule step_structure_version_mono)
  also have "\<dots> \<le> projectStructureVersion (run lib reg ops (step lib reg op p))"
    by (rule Cons.IH)
  finally show ?case by (simp add: run_def)
qed

text \<open>
  Claim C4, as the code has it. Over every sequence of operations the structure version
  does not decrease. An operation changes it only if it is an \<open>updateGraph\<close> made while
  the language service is enabled, and either the project had no program yet (the first
  recompute) or the engine returned a program object other than the previous one and
  did not reuse the structure of the previous one; the version then grows by one. No
  other operation changes it, and \<open>updateGraph\<close> with the language service disabled leaves
  the project as it is. The file sets of the two programs are not compared.
\<close>

theorem structure_version_changes:
  "projectStructureVersion p \<le> projectStructureVersion (run lib reg ops p)
   \<and> (projectStructureVersion (step lib reg op p) \<noteq> projectStructureVersion p \<longrightarrow>
        (\<exists>reply. op = UpdateGraph reply \<and> languageServiceEnabled p
           \<and> (program p = None
                \<or> (\<exists>old. program p = Some old \<and> programId (replyProgram reply) \<noteq> programId old
                      \<and> \<not> oldProgramStructureIsReused reply))
           \<and> projectStructureVersion (step lib reg op p) = projectStructureVersion p + 1))
   \<and> (\<not> languageServiceEnabled p \<longrightarrow> updateGraph reply p = p)"
  using step_structure_version [of lib reg op p] run_structure_version_mono [of p lib reg ops]
  by (auto simp: updateGraph_def)

theorem structure_version_changes_witness:
  "projectStructureVersion (step noDefaultLib noRegistry (UpdateGraph secondProgram) analysedProject)
     \<noteq> projectStructureVersion analysedProject
   \<and> languageServiceEnabled analysedProject
   \<and> projectStructureVersion (step noDefaultLib noRegistry (UpdateGraph secondProgram) analysedProject) = 2
   \<and> \<not> languageServiceEnabled (disableLanguageService analysedProject)
   \<and> updateGraph secondProgram (disableLanguageService analysedProject) = disableLanguageService analysedProject"
proof -
  have h1: "projectStructureVersion (step noDefaultLib noRegistry (UpdateGraph secondProgram) analysedProject)
     \<noteq> projectStructureVersion analysedProject"
    by (simp add: example_defs project_defs)
  have h2: "\<not> languageServiceEnabled (disableLanguageService analysedProject)"
    by (simp add: disableLanguageService_def)
  from h1 h2
    structure_version_changes [of analysedProject noDefaultLib noRegistry "[]" "UpdateGraph secondProgram" secondProgram]
    structure_version_changes [of "disableLanguageService analysedProject" noDefaultLib noRegistry "[]" MarkAsDirty secondProgram]
  show ?thesis
    by (auto simp: analysedProject_files)
qed

text \<open>
  Claim C4 as stated fails: the project already has a program, the engine returns a new
  program object with the same files without reusing the old structure, and the
  structure version changes although the file set is the one it was.
\<close>

theorem structure_version_same_files_counterexample:
  "program analysedProject \<noteq> None
   \<and> getFileNames noDefaultLib (updateGraph sameFilesProgram analysedProject)
       = getFileNames noDefaultLib analysedProject
   \<and> projectStructureVersion (updateGraph sameFilesProgram analysedProject)
       \<noteq> projectStructureVersion analysedProject"
  by (simp add: example_defs project_defs sameFilesProgram_def)

text \<open>
  Claim C5, as the code has it. The state version strictly increases on every \<open>addRoot\<close>
  of a file that is not yet a root (an \<open>addRoot\<close> of a root changes nothing), on every
  \<open>removeFile\<close>, and on every \<open>setCompilerOptions\<close> that is given options. A \<open>removeFile\<close> of
  a file that is neither a root nor attached marks the state dirty and otherwise only
  asks the binding to drop the file as a referenced file.
\<close>

theorem state_version_increases:
  "(\<not> isRoot p i \<longrightarrow> projectStateVersion p < projectStateVersion (addRoot i p))
   \<and> (isRoot p i \<longrightarrow> addRoot i p = p)
   \<and> projectStateVersion p < projectStateVersion (removeFile i d p)
   \<and> projectStateVersion p < projectStateVersion (setCompilerOptions (Some options) p)
   \<and> (\<not> isRoot p i \<and> i \<notin> set (attachedInfos p) \<longrightarrow>
        removeFile i d p = (markAsDirty p)\<lparr>lsHost := hostRemoveReferencedFile i (lsHost p)\<rparr>)"
proof -
  have a: "\<not> isRoot p i \<longrightarrow> projectStateVersion p < projectStateVersion (addRoot i p)"
    by (simp add: addRoot_def markAsDirty_def attachToProject_def)
  have b: "isRoot p i \<longrightarrow> addRoot i p = p"
    by (simp add: addRoot_def)
  have c: "projectStateVersion p < projectStateVersion (removeFile i d p)"
    by (simp add: removeFile_def removeRoot_def removeReferencedFile_def detachFromProject_def
          markAsDirty_def Let_def)
  have d: "projectStateVersion p < projectStateVersion (setCompilerOptions (Some options) p)"
    by (simp add: setCompilerOptions_def markAsDirty_def Let_def)
  have "filter (\<lambda>e. e \<noteq> i) (attachedInfos p) = attachedInfos p" if "i \<notin> set (attachedInfos p)"
    using that by (induction "attachedInfos p") (auto simp: filter_id_conv)
  then have e: "\<not> isRoot p i \<and> i \<notin> set (attachedInfos p) \<longrightarrow>
        removeFile i d p = (markAsDirty p)\<lparr>lsHost := hostRemoveReferencedFile i (lsHost p)\<rparr>"
    by (simp add: removeFile_def removeRoot_def removeReferencedFile_def detachFromProject_def
          markAsDirty_def Let_def)
  from a b c d e show ?thesis by blast
qed

theorem state_version_increases_witness:
  "\<not> isRoot freshProject fileA
   \<and> projectStateVersion freshProject < projectStateVersion (addRoot fileA freshProject)
   \<and> isRoot (addRoot fileA freshProject) fileA
   \<and> addRoot fileA (addRoot fileA freshProject) = addRoot fileA freshProject
   \<and> fileB \<notin> set (attachedInfos freshProject)
   \<and> \<not> isRoot freshProject fileB
   \<and> removeFile fileB True freshProject =
       (markAsDirty freshProject)\<lparr>lsHost := hostRemoveReferencedFile fileB (lsHost freshProject)\<rparr>"
proof -
  have h1: "\<not> isRoot freshProject fileA" "\<not> isRoot freshProject fileB"
    "fileB \<notin> set (attachedInfos freshProject)"
    by (simp_all add: example_defs project_defs)
  have h2: "isRoot (addRoot fileA freshProject) fileA"
    by (simp add: example_defs project_defs)
  from h1 h2
    state_version_increases [of freshProject fileA True emptyOptions]
    state_version_increases [of "addRoot fileA freshProject" fileA True emptyOptions]
    state_version_increases [of freshProject fileB True emptyOptions]
  show ?thesis by blast
qed

text \<open>
  Claim C5 as stated fails: the second \<open>addRoot\<close> of the same file does not increase the
  state version.
\<close>

theorem addRoot_again_counterexample:
  "\<not> projectStateVersion (addRoot fileA freshProject)
       < projectStateVersion (addRoot fileA (addRoot fileA freshProject))"
  by (simp add: addRoot_def isRoot_def hasProperty_def markAsDirty_def attachToProject_def
        freshProject_def newProject_def enableLanguageService_def fileA_def Let_def)

section \<open>Root files\<close>

lemma isRoot_addRoot: "isRoot (addRoot i p) i"
  by (simp add: addRoot_def isRoot_def hasProperty_setProperty markAsDirty_def attachToProject_def)

text \<open>
  Claim C6. After \<open>addRoot\<close> of a file the file is a root, and a second \<open>addRoot\<close> of the
  same file leaves the whole project as the first one left it: the number of roots, the
  root list and the state version are the same. The first \<open>addRoot\<close> keeps the roots that
  were there, in their order, at the front of the list. \<open>addRoot\<close> has no failing branch,
  so neither call throws.
\<close>

theorem addRoot_idempotent:
  "isRoot (addRoot i p) i
   \<and> addRoot i (addRoot i p) = addRoot i p
   \<and> length (rootFiles (addRoot i (addRoot i p))) = length (rootFiles (addRoot i p))
   \<and> rootFiles (addRoot i (addRoot i p)) = rootFiles (addRoot i p)
   \<and> projectStateVersion (addRoot i (addRoot i p)) = projectStateVersion (addRoot i p)
   \<and> take (length (rootFiles p)) (rootFiles (addRoot i p)) = rootFiles p"
proof -
  have r: "isRoot (addRoot i p) i" by (rule isRoot_addRoot)
  then have "addRoot i (addRoot i p) = addRoot i p"
    by (simp add: addRoot_def [of i "addRoot i p"])
  moreover have "take (length (rootFiles p)) (rootFiles (addRoot i p)) = rootFiles p"
    by (simp add: addRoot_def markAsDirty_def attachToProject_def)
  ultimately show ?thesis using r by simp
qed











section \<open>Compiler options\<close>

text \<open>
  Claim C8, as the code has it. \<open>setCompilerOptions\<close> without options (\<open>undefined\<close>) leaves
  the project as it is: stored options, binding and state version. With options, also
  with an object that has no property, it sets \<open>allowNonTsExtensions\<close>, stores the
  options, pushes them into the active binding and increments the state version.
\<close>

theorem setCompilerOptions_effect:
  "setCompilerOptions None p = p
   \<and> compilerOptions (setCompilerOptions (Some options) p) =
       Some (options\<lparr>allowNonTsExtensions := Some True\<rparr>)
   \<and> lsHost (setCompilerOptions (Some options) p) =
       setCompilationSettings (Some (options\<lparr>allowNonTsExtensions := Some True\<rparr>)) (lsHost p)
   \<and> projectStateVersion (setCompilerOptions (Some options) p) = projectStateVersion p + 1"
  by (simp add: setCompilerOptions_def markAsDirty_def Let_def)

text \<open>
  Claim C8 as stated fails: called with the options object that has no property,
  \<open>setCompilerOptions\<close> changes the state version, the stored options and the settings of
  the binding.
\<close>

theorem setCompilerOptions_empty_counterexample:
  "projectStateVersion (setCompilerOptions (Some emptyOptions) freshProject)
     \<noteq> projectStateVersion freshProject
   \<and> compilerOptions (setCompilerOptions (Some emptyOptions) freshProject)
       \<noteq> compilerOptions freshProject
   \<and> lsHost (setCompilerOptions (Some emptyOptions) freshProject) \<noteq> lsHost freshProject"
  by (simp add: setCompilerOptions_def markAsDirty_def Let_def freshProject_def newProject_def
        emptyOptions_def enableLanguageService_def)

section \<open>Watches of a configured project\<close>

lemma watchWildcard_fold:
  "foldl (watchWildcard h cb c) (ws, svc) dirs = (ws', svc') \<Longrightarrow>
     useCaseSensitiveFileNames svc' = useCaseSensitiveFileNames svc
     \<and> length (hostWatches svc') = length (hostWatches svc)
          + length (filter (\<lambda>(d, f). comparePaths h c d ''.'' (\<not> useCaseSensitiveFileNames svc) \<noteq> EqualTo) dirs)"
proof (induction dirs arbitrary: ws svc)
  case Nil
  then show ?case by simp
next
  case (Cons e dirs)
  obtain d f where e: "e = (d, f)" by (cases e)
  obtain ws1 svc1 where s: "watchWildcard h cb c (ws, svc) (d, f) = (ws1, svc1)"
    by (cases "watchWildcard h cb c (ws, svc) (d, f)")
  have one: "useCaseSensitiveFileNames svc1 = useCaseSensitiveFileNames svc
     \<and> length (hostWatches svc1) = length (hostWatches svc)
          + (if comparePaths h c d ''.'' (\<not> useCaseSensitiveFileNames svc) \<noteq> EqualTo then 1 else 0)"
    using s by (auto simp: watchWildcard_def watchDirectory_def log_def Let_def split: if_splits)
  from Cons.prems e s have "foldl (watchWildcard h cb c) (ws1, svc1) dirs = (ws', svc')" by simp
  from Cons.IH [OF this] one e show ?case by simp
qed

lemma configuredExample_fields:
  "configFileName configuredExample = ''/proj/tsconfig.json''"
  "wildcardDirectories configuredExample = Some [(''/proj'', 1), (''/proj/src'', 1), (''/lib'', 0)]"
  "directoryWatcher configuredExample = None"
  by (simp_all add: configuredExample_def newConfiguredProject_def Project.defs ConfiguredProject.defs)

lemma idleService_fields:
  "hostWatches idleService = []" "nextWatcher idleService = 0" "useCaseSensitiveFileNames idleService"
  by (simp_all add: idleService_def)

text \<open>
  Claim C9, as the code has it. Of the three watch registrations only
  \<open>watchConfigDirectory\<close> is idempotent: a second call, with any callback, registers
  nothing and leaves the project and the host as the first call left them.
  \<open>watchConfigFile\<close> registers one more file watch with the host on every call and stores
  the new handle. \<open>watchWildcards\<close> does nothing when the project's map of wildcard
  directories is absent; otherwise every call registers one more watch for each wildcard
  directory that is not the directory of the configuration file (none for an empty map).
\<close>

theorem watch_registration:
  "watchConfigDirectory h cb2 (watchConfigDirectory h cb (p, svc)) = watchConfigDirectory h cb (p, svc)
   \<and> fst (watchConfigFile cb (p, svc)) = p\<lparr>projectFileWatcher := Some (nextWatcher svc)\<rparr>
   \<and> snd (watchConfigFile cb (p, svc)) =
       svc\<lparr>hostWatches := hostWatches svc @ [FileWatch (configFileName p) cb (nextWatcher svc)],
           nextWatcher := Suc (nextWatcher svc)\<rparr>
   \<and> (wildcardDirectories p = None \<longrightarrow> watchWildcards h cb (p, svc) = (p, svc))
   \<and> (\<forall>dirs. wildcardDirectories p = Some dirs \<longrightarrow>
         length (hostWatches (snd (watchWildcards h cb (p, svc)))) =
           length (hostWatches svc)
           + length (filter (\<lambda>(d, f). comparePaths h (getDirectoryPath h (configFileName p)) d ''.''
                                        (\<not> useCaseSensitiveFileNames svc) \<noteq> EqualTo) dirs))"
proof -
  have a: "watchConfigDirectory h cb2 (watchConfigDirectory h cb (p, svc)) = watchConfigDirectory h cb (p, svc)"
    by (simp add: watchConfigDirectory_def watchDirectory_def log_def Let_def split: option.splits)
  have b: "fst (watchConfigFile cb (p, svc)) = p\<lparr>projectFileWatcher := Some (nextWatcher svc)\<rparr>"
    "snd (watchConfigFile cb (p, svc)) =
       svc\<lparr>hostWatches := hostWatches svc @ [FileWatch (configFileName p) cb (nextWatcher svc)],
           nextWatcher := Suc (nextWatcher svc)\<rparr>"
    by (simp_all add: watchConfigFile_def watchFile_def)
  have c: "wildcardDirectories p = None \<longrightarrow> watchWildcards h cb (p, svc) = (p, svc)"
    by (simp add: watchWildcards_def)
  have d: "length (hostWatches (snd (watchWildcards h cb (p, svc)))) =
           length (hostWatches svc)
           + length (filter (\<lambda>(d, f). comparePaths h (getDirectoryPath h (configFileName p)) d ''.''
                                        (\<not> useCaseSensitiveFileNames svc) \<noteq> EqualTo) dirs)"
    if w: "wildcardDirectories p = Some dirs" for dirs
  proof -
    obtain ws' svc' where
      f: "foldl (watchWildcard h cb (getDirectoryPath h (configFileName p))) ([], svc) dirs = (ws', svc')"
      by (cases "foldl (watchWildcard h cb (getDirectoryPath h (configFileName p))) ([], svc) dirs")
    from watchWildcard_fold [OF f] w f show ?thesis
      by (simp add: watchWildcards_def Let_def)
  qed
  from a b c d show ?thesis by blast
qed

theorem watch_registration_witness:
  "wildcardDirectories configuredExample = Some [(''/proj'', 1), (''/proj/src'', 1), (''/lib'', 0)]
   \<and> length (hostWatches (snd (watchWildcards simplePaths 7 (configuredExample, idleService)))) = 2
   \<and> wildcardDirectories (configuredExample\<lparr>wildcardDirectories := None\<rparr>) = None
   \<and> watchWildcards simplePaths 7 (configuredExample\<lparr>wildcardDirectories := None\<rparr>, idleService)
       = (configuredExample\<lparr>wildcardDirectories := None\<rparr>, idleService)"
proof -
  have h1: "wildcardDirectories configuredExample = Some [(''/proj'', 1), (''/proj/src'', 1), (''/lib'', 0)]"
    by (simp add: configuredExample_fields)
  have h2: "wildcardDirectories (configuredExample\<lparr>wildcardDirectories := None\<rparr>) = None"
    by simp
  from h1 h2
    watch_registration [of simplePaths 7 7 configuredExample idleService]
    watch_registration [of simplePaths 7 7 "configuredExample\<lparr>wildcardDirectories := None\<rparr>" idleService]
  show ?thesis
    by (simp add: configuredExample_fields idleService_fields simplePaths_def)
qed

text \<open>
  Claim C9 as stated fails: a second \<open>watchConfigFile\<close> registers a second file watch and
  replaces the stored handle, and a second \<open>watchWildcards\<close> registers the two wildcard
  watches again and replaces the stored handles.
\<close>

theorem watch_registration_counterexample:
  "length (hostWatches (snd (watchConfigFile 7 (configuredExample, idleService)))) = 1
   \<and> length (hostWatches (snd (watchConfigFile 7 (watchConfigFile 7 (configuredExample, idleService))))) = 2
   \<and> projectFileWatcher (fst (watchConfigFile 7 (configuredExample, idleService))) = Some 0
   \<and> projectFileWatcher (fst (watchConfigFile 7 (watchConfigFile 7 (configuredExample, idleService)))) = Some 1
   \<and> length (hostWatches (snd (watchWildcards simplePaths 7 (configuredExample, idleService)))) = 2
   \<and> length (hostWatches (snd (watchWildcards simplePaths 7
                (watchWildcards simplePaths 7 (configuredExample, idleService))))) = 4
   \<and> directoriesWatchedForWildcards (fst (watchWildcards simplePaths 7 (configuredExample, idleService)))
       = Some [(''/proj/src'', 0), (''/lib'', 1)]
   \<and> directoriesWatchedForWildcards (fst (watchWildcards simplePaths 7
                (watchWildcards simplePaths 7 (configuredExample, idleService))))
       = Some [(''/proj/src'', 2), (''/lib'', 3)]"
  by (simp add: watchConfigFile_def watchFile_def watchWildcards_def watchWildcard_def watchDirectory_def
        log_def Let_def configuredExample_fields idleService_fields simplePaths_def Recursive_def)

section \<open>\<open>containsFile\<close>\<close>

text \<open>
  Claim C10, as the code has it. \<open>containsFile\<close> returns \<open>undefined\<close> exactly when the
  registry has no entry for the name, or \<open>requireOpen\<close> is true and the file is not open,
  or the project has no program yet. When the registry knows the file, the open
  requirement is met and there is a program, it returns the boolean that tells whether
  the program has a source file with the path of that file.
\<close>

theorem containsFile_result:
  "(containsFile reg p name requireOpen = None) =
     (getScriptInfoForNormalizedPath reg name = None
      \<or> (\<exists>i. getScriptInfoForNormalizedPath reg name = Some i \<and> requireOpen = Some True \<and> \<not> isOpen reg i)
      \<or> program p = None)
   \<and> (\<forall>i prog. getScriptInfoForNormalizedPath reg name = Some i
         \<and> (requireOpen \<noteq> Some True \<or> isOpen reg i)
         \<and> program p = Some prog \<longrightarrow>
         containsFile reg p name requireOpen = Some (path i \<in> sourcePath ` set (sourceFiles prog)))"
proof -
  have f: "(getSourceFileByPath prog k = None) = (k \<notin> sourcePath ` set (sourceFiles prog))" for k prog
    by (auto simp: getSourceFileByPath_def find_None_iff)
  show ?thesis
    by (auto simp: containsFile_def containsScriptInfo_def f split: option.splits)
qed

theorem containsFile_result_witness:
  "getScriptInfoForNormalizedPath knownRegistry ''/b.ts'' = Some fileB
   \<and> program shrunkProject = Some (replyProgram secondProgram)
   \<and> containsFile knownRegistry shrunkProject ''/b.ts'' None = Some False
   \<and> containsFile knownRegistry shrunkProject ''/a.ts'' (Some True) = Some True"
proof -
  have h1: "getScriptInfoForNormalizedPath knownRegistry ''/b.ts'' = Some fileB"
    "getScriptInfoForNormalizedPath knownRegistry ''/a.ts'' = Some fileA"
    "isOpen knownRegistry fileA"
    by (simp_all add: knownRegistry_def)
  have h2: "program shrunkProject = Some (replyProgram secondProgram)"
    by (simp add: example_defs project_defs)
  from h1 h2
    containsFile_result [of knownRegistry shrunkProject "''/b.ts''" None]
    containsFile_result [of knownRegistry shrunkProject "''/a.ts''" "Some True"]
  show ?thesis
    by (simp add: secondProgram_def sourceOf_def fileA_def fileB_def)
qed

text \<open>
  Claim C10 as stated fails: the registry knows \<open>a.ts\<close>, the file is open, so the open
  requirement is met with or without \<open>requireOpen\<close>, and yet on a project without a
  program \<open>containsFile\<close> returns \<open>undefined\<close>, not a boolean.
\<close>

theorem containsFile_no_program_counterexample:
  "getScriptInfoForNormalizedPath knownRegistry ''/a.ts'' = Some fileA
   \<and> isOpen knownRegistry fileA
   \<and> containsFile knownRegistry freshProject ''/a.ts'' None = None
   \<and> containsFile knownRegistry freshProject ''/a.ts'' (Some True) = None"
  by (simp add: knownRegistry_def containsFile_def containsScriptInfo_def freshProject_def
        newProject_def markAsDirty_def enableLanguageService_def Let_def)

end
